theory Spec2Isabelle
  imports Complex_Main "HOL-Library.Option_ord"
begin

section \<open>Errors\<close>

text \<open>
  Every way a handler of \<^verbatim>\<open>main.py\<close> can stop early is a value of \<open>error\<close>.
  \<open>HTTPException status detail\<close> is the exception the handlers raise themselves; the
  framework turns it into a response with that status. \<open>InvalidId s\<close> is the exception
  the \<^verbatim>\<open>ObjectId\<close> constructor raises on a string that is not an identifier, and
  \<open>OperationFailure\<close> the one the store raises on a query it cannot compile; no handler
  catches either of them.
\<close>

datatype error = HTTPException nat string | InvalidId string | OperationFailure

section \<open>Identifiers\<close>

text \<open>
  The store's internal identifier is a 96-bit number, written as 24 hexadecimal digits.
  \<open>ObjectId s\<close> is the constructor applied to a string: it accepts the strings of 24
  hexadecimal digits (either case) and raises \<open>InvalidId\<close> on a string of another
  length or with a character that is neither a digit nor white space. The constructor
  also tolerates white space between pairs of digits in a string of length 24; the
  model raises \<open>InvalidId\<close> on such a string too, and no statement below is about one:
  \<open>malformed_id\<close> holds of the strings the constructor certainly rejects.
  \<open>str_oid\<close> is \<^verbatim>\<open>str(oid)\<close>, the 24 lower-case digits.
\<close>

type_synonym oid = nat

definition hex_digits :: "(char \<times> nat) list" where
  "hex_digits =
     [(CHR ''0'', 0), (CHR ''1'', 1), (CHR ''2'', 2), (CHR ''3'', 3), (CHR ''4'', 4),
      (CHR ''5'', 5), (CHR ''6'', 6), (CHR ''7'', 7), (CHR ''8'', 8), (CHR ''9'', 9),
      (CHR ''a'', 10), (CHR ''b'', 11), (CHR ''c'', 12), (CHR ''d'', 13), (CHR ''e'', 14),
      (CHR ''f'', 15),
      (CHR ''A'', 10), (CHR ''B'', 11), (CHR ''C'', 12), (CHR ''D'', 13), (CHR ''E'', 14),
      (CHR ''F'', 15)]"

definition hex_val :: "char \<Rightarrow> nat option" where
  "hex_val c = map_of hex_digits c"

definition is_hex :: "char \<Rightarrow> bool" where
  "is_hex c = (hex_val c \<noteq> None)"

definition hex_number :: "string \<Rightarrow> nat" where
  "hex_number s = foldl (\<lambda>acc c. 16 * acc + (case hex_val c of Some d \<Rightarrow> d | None \<Rightarrow> 0)) 0 s"

definition valid_oid_string :: "string \<Rightarrow> bool" where
  "valid_oid_string s = (length s = 24 \<and> list_all is_hex s)"

definition ascii_whitespace :: "char list" where
  "ascii_whitespace = [CHR '' '', CHR 0x09, CHR 0x0A, CHR 0x0B, CHR 0x0C, CHR 0x0D]"

definition malformed_id :: "string \<Rightarrow> bool" where
  "malformed_id s =
     (length s \<noteq> 24 \<or> list_ex (\<lambda>c. \<not> is_hex c \<and> c \<notin> set ascii_whitespace) s)"

definition ObjectId :: "string \<Rightarrow> error + oid" where
  "ObjectId s = (if valid_oid_string s then Inr (hex_number s) else Inl (InvalidId s))"

definition hex_char :: "nat \<Rightarrow> char" where
  "hex_char d = ''0123456789abcdef'' ! (d mod 16)"

fun hex_of :: "nat \<Rightarrow> nat \<Rightarrow> string" where
  "hex_of 0 n = []"
| "hex_of (Suc k) n = hex_of k (n div 16) @ [hex_char n]"

definition str_oid :: "oid \<Rightarrow> string" where
  "str_oid i = hex_of 24 i"

section \<open>Schemas\<close>

text \<open>
  The classes of \<^verbatim>\<open>schemas.py\<close> and the request bodies of \<^verbatim>\<open>main.py\<close>, one record
  each. Field names carry a prefix because two classes share names such as
  \<^verbatim>\<open>school\<close> and \<^verbatim>\<open>user_id\<close>. Python's \<^verbatim>\<open>float\<close> is read as a real number
  (finite values, exact arithmetic), \<^verbatim>\<open>datetime\<close> as a number of seconds.
\<close>

record user =
  u_role :: string
  u_full_name :: string
  u_email :: string
  u_password_hash :: string
  u_phone :: "string option"
  u_school :: "string option"
  u_avatar_url :: "string option"
  u_is_verified :: bool

record apartment =
  a_vendor_id :: string
  a_title :: string
  a_description :: "string option"
  a_school :: string
  a_location :: string
  a_price_monthly :: real
  a_type :: string
  a_distance_km :: real
  a_amenities :: "string list"
  a_photos :: "string list"
  a_video_url :: "string option"
  a_is_available :: bool
  a_rating_avg :: real
  a_rating_count :: int

record review =
  r_apartment_id :: string
  r_user_id :: string
  r_rating :: int
  r_comment :: "string option"

record message =
  m_thread_id :: string
  m_from_user_id :: string
  m_to_user_id :: string
  m_body :: string

record message_thread =
  t_student_id :: string
  t_vendor_id :: string
  t_last_message :: "string option"
  t_last_time :: "nat option"

record register_request =
  rr_role :: string
  rr_full_name :: string
  rr_email :: string
  rr_password :: string
  rr_phone :: "string option"
  rr_school :: "string option"


record apartment_create =
  ac_title :: string
  ac_description :: "string option"
  ac_school :: string
  ac_location :: string
  ac_price_monthly :: real
  ac_type :: string
  ac_distance_km :: real
  ac_amenities :: "string list"
  ac_photos :: "string list"
  ac_video_url :: "string option"

record send_message_body =
  sm_thread_id :: string
  sm_body :: string

section \<open>The store\<close>

text \<open>
  \<^verbatim>\<open>db\<close> is a process-wide handle on a document store. Each collection is the list
  of its documents in insertion order, every document paired with its \<^verbatim>\<open>_id\<close>.
  \<^verbatim>\<open>insert_one\<close> appends the document under a fresh identifier taken from
  \<open>db_next_id\<close>; \<^verbatim>\<open>find_one\<close> returns the first document that matches, and
  \<^verbatim>\<open>update_one\<close> changes the first document that matches.
\<close>

record store =
  db_user :: "(oid \<times> user) list"
  db_apartment :: "(oid \<times> apartment) list"
  db_review :: "(oid \<times> review) list"
  db_messagethread :: "(oid \<times> message_thread) list"
  db_message :: "(oid \<times> message) list"
  db_next_id :: oid

definition empty_store :: store where
  "empty_store = \<lparr>db_user = [], db_apartment = [], db_review = [], db_messagethread = [],
     db_message = [], db_next_id = 0\<rparr>"

definition find_one :: "('d \<Rightarrow> bool) \<Rightarrow> (oid \<times> 'd) list \<Rightarrow> (oid \<times> 'd) option" where
  "find_one query coll = find (\<lambda>(i, d). query d) coll"

definition find_one_by_id :: "oid \<Rightarrow> (oid \<times> 'd) list \<Rightarrow> (oid \<times> 'd) option" where
  "find_one_by_id k coll = find (\<lambda>(i, d). i = k) coll"

fun update_one_by_id :: "oid \<Rightarrow> ('d \<Rightarrow> 'd) \<Rightarrow> (oid \<times> 'd) list \<Rightarrow> (oid \<times> 'd) list" where
  "update_one_by_id k f [] = []"
| "update_one_by_id k f ((i, d) # rest) =
     (if i = k then (i, f d) # rest else (i, d) # update_one_by_id k f rest)"

definition list_with_id :: "(oid \<times> 'd) list \<Rightarrow> (string \<times> 'd) list" where
  "list_with_id cursor = map (\<lambda>(i, d). (str_oid i, d)) cursor"

definition insert_user :: "store \<Rightarrow> user \<Rightarrow> oid \<times> store" where
  "insert_user st d =
     (db_next_id st,
      st\<lparr>db_user := db_user st @ [(db_next_id st, d)], db_next_id := Suc (db_next_id st)\<rparr>)"

definition insert_apartment :: "store \<Rightarrow> apartment \<Rightarrow> oid \<times> store" where
  "insert_apartment st d =
     (db_next_id st,
      st\<lparr>db_apartment := db_apartment st @ [(db_next_id st, d)],
         db_next_id := Suc (db_next_id st)\<rparr>)"

definition insert_review :: "store \<Rightarrow> review \<Rightarrow> oid \<times> store" where
  "insert_review st d =
     (db_next_id st,
      st\<lparr>db_review := db_review st @ [(db_next_id st, d)], db_next_id := Suc (db_next_id st)\<rparr>)"

definition insert_messagethread :: "store \<Rightarrow> message_thread \<Rightarrow> oid \<times> store" where
  "insert_messagethread st d =
     (db_next_id st,
      st\<lparr>db_messagethread := db_messagethread st @ [(db_next_id st, d)],
         db_next_id := Suc (db_next_id st)\<rparr>)"

definition insert_message :: "store \<Rightarrow> message \<Rightarrow> oid \<times> store" where
  "insert_message st d =
     (db_next_id st,
      st\<lparr>db_message := db_message st @ [(db_next_id st, d)],
         db_next_id := Suc (db_next_id st)\<rparr>)"

section \<open>Tokens and the access-control guard\<close>

text \<open>
  Signing is opaque: a token made by \<^verbatim>\<open>jwt.encode\<close> with the server's secret is
  \<open>Signed\<close> with its claims, any other bearer string is \<open>Forged\<close>. \<^verbatim>\<open>jwt.decode\<close>
  rejects a forged token and a signed one whose \<^verbatim>\<open>exp\<close> has passed; the clock
  \<open>now\<close> is an argument, in seconds.
\<close>

record claims =
  c_sub :: string
  c_role :: string
  c_email :: string
  c_name :: string
  c_exp :: nat

datatype token = Signed claims | Forged

record auth_user =
  au_id :: string
  au_role :: string
  au_email :: string
  au_full_name :: string

definition ACCESS_TOKEN_EXPIRE_MINUTES :: nat where
  "ACCESS_TOKEN_EXPIRE_MINUTES = 60 * 24 * 7"

definition create_access_token :: "nat \<Rightarrow> string \<Rightarrow> string \<Rightarrow> string \<Rightarrow> string \<Rightarrow> token" where
  "create_access_token now sub rl em nm =
     Signed \<lparr>c_sub = sub, c_role = rl, c_email = em, c_name = nm,
       c_exp = now + ACCESS_TOKEN_EXPIRE_MINUTES * 60\<rparr>"

definition get_current_user :: "nat \<Rightarrow> token \<Rightarrow> error + auth_user" where
  "get_current_user now tok =
     (case tok of
        Forged \<Rightarrow> Inl (HTTPException 401 ''Invalid or expired token'')
      | Signed c \<Rightarrow>
          if c_exp c \<le> now then Inl (HTTPException 401 ''Invalid or expired token'')
          else Inr \<lparr>au_id = c_sub c, au_role = c_role c, au_email = c_email c,
                 au_full_name = c_name c\<rparr>)"

definition require_role :: "string list \<Rightarrow> error + auth_user \<Rightarrow> error + auth_user" where
  "require_role required dep =
     (case dep of
        Inl e \<Rightarrow> Inl e
      | Inr user \<Rightarrow>
          if au_role user \<notin> set required
          then Inl (HTTPException 403 ''Insufficient permissions'')
          else Inr user)"

text \<open>
  The password capability \<^verbatim>\<open>pwd_context\<close> is opaque as well: the two functions are
  arguments of the handlers that use them.
\<close>

record pwd_context =
  pwd_hash :: "string \<Rightarrow> string"
  pwd_verify :: "string \<Rightarrow> string \<Rightarrow> bool"

section \<open>Registration and login\<close>

definition register ::
  "pwd_context \<Rightarrow> nat \<Rightarrow> store \<Rightarrow> register_request \<Rightarrow> (error + token) \<times> store" where
  "register ctx now st data =
     (case find_one (\<lambda>u. u_email u = rr_email data) (db_user st) of
        Some found \<Rightarrow> (Inl (HTTPException 400 ''Email already registered''), st)
      | None \<Rightarrow>
          (let hashed = pwd_hash ctx (rr_password data);
               usr = \<lparr>u_role = rr_role data, u_full_name = rr_full_name data,
                       u_email = rr_email data, u_password_hash = hashed,
                       u_phone = rr_phone data, u_school = rr_school data,
                       u_avatar_url = None, u_is_verified = False\<rparr>;
               (user_id, st') = insert_user st usr;
               tok = create_access_token now (str_oid user_id) (u_role usr) (u_email usr)
                       (u_full_name usr)
           in (Inr tok, st')))"


section \<open>Documents as the store sees them\<close>

text \<open>
  Queries and sort orders name fields by string, so the store's view of a document is
  the dictionary \<^verbatim>\<open>model_dump()\<close> produced when the document was inserted: the
  fields the schema class declares, and no others.
\<close>

datatype val = VStr string | VNum real | VInt int | VBool bool | VList "string list"
  | VTime nat | VNull

definition opt_str :: "string option \<Rightarrow> val" where
  "opt_str x = (case x of None \<Rightarrow> VNull | Some s \<Rightarrow> VStr s)"

definition apartment_dump :: "apartment \<Rightarrow> (string \<times> val) list" where
  "apartment_dump a =
     [(''vendor_id'', VStr (a_vendor_id a)), (''title'', VStr (a_title a)),
      (''description'', opt_str (a_description a)), (''school'', VStr (a_school a)),
      (''location'', VStr (a_location a)), (''price_monthly'', VNum (a_price_monthly a)),
      (''type'', VStr (a_type a)), (''distance_km'', VNum (a_distance_km a)),
      (''amenities'', VList (a_amenities a)), (''photos'', VList (a_photos a)),
      (''video_url'', opt_str (a_video_url a)), (''is_available'', VBool (a_is_available a)),
      (''rating_avg'', VNum (a_rating_avg a)), (''rating_count'', VInt (a_rating_count a))]"

definition message_dump :: "message \<Rightarrow> (string \<times> val) list" where
  "message_dump m =
     [(''thread_id'', VStr (m_thread_id m)), (''from_user_id'', VStr (m_from_user_id m)),
      (''to_user_id'', VStr (m_to_user_id m)), (''body'', VStr (m_body m))]"

text \<open>
  \<^verbatim>\<open>cursor.sort(field, direction)\<close> on a date field. A document without the field
  sorts as null, before every date. The sort is stable: documents with equal keys stay
  in the order the collection holds them, in both directions.
\<close>

definition time_key :: "(string \<times> val) list \<Rightarrow> string \<Rightarrow> nat option" where
  "time_key doc field = (case map_of doc field of Some (VTime t) \<Rightarrow> Some t | _ \<Rightarrow> None)"

definition sort_cursor ::
  "('d \<Rightarrow> (string \<times> val) list) \<Rightarrow> string \<Rightarrow> int \<Rightarrow> (oid \<times> 'd) list \<Rightarrow> (oid \<times> 'd) list" where
  "sort_cursor dump field direction cursor =
     (if direction = 1 then sort_key (\<lambda>(i, d). time_key (dump d) field) cursor
      else rev (sort_key (\<lambda>(i, d). time_key (dump d) field) (rev cursor)))"

section \<open>Query documents\<close>

text \<open>
  A query is the dictionary \<^verbatim>\<open>list_apartments\<close> builds: a key maps to a literal
  (equality), to a dictionary of operators (\<^verbatim>\<open>$regex\<close> with \<^verbatim>\<open>$options\<close>,
  \<^verbatim>\<open>$gte\<close>, \<^verbatim>\<open>$lte\<close>, \<^verbatim>\<open>$all\<close>), or, under \<^verbatim>\<open>$or\<close>, to a list of
  one-field clauses. A document matches when it matches every key. The regular
  expression engine belongs to the store: \<open>rx pattern options\<close> is \<open>None\<close> when the
  pattern does not compile, and otherwise the search predicate on subject strings.
\<close>

datatype operand = OStr string | ONum real | OList "string list"

datatype qvalue = Literal string | Ops "(string \<times> operand) list"
  | Clauses "(string \<times> (string \<times> operand) list) list"

type_synonym query = "(string \<times> qvalue) list"

type_synonym regex_engine = "string \<Rightarrow> string \<Rightarrow> (string \<Rightarrow> bool) option"

definition regex_options :: "(string \<times> operand) list \<Rightarrow> string" where
  "regex_options ops = (case map_of ops ''$options'' of Some (OStr opts) \<Rightarrow> opts | _ \<Rightarrow> [])"

definition match_regex :: "regex_engine \<Rightarrow> (string \<times> operand) list \<Rightarrow> val option \<Rightarrow> bool" where
  "match_regex rx ops v =
     (case map_of ops ''$regex'' of
        Some (OStr pat) \<Rightarrow>
          (case rx pat (regex_options ops) of
             None \<Rightarrow> False
           | Some search \<Rightarrow> (case v of Some (VStr s) \<Rightarrow> search s | _ \<Rightarrow> False))
      | _ \<Rightarrow> True)"

definition match_gte :: "(string \<times> operand) list \<Rightarrow> val option \<Rightarrow> bool" where
  "match_gte ops v =
     (case map_of ops ''$gte'' of
        Some (ONum x) \<Rightarrow> (case v of Some (VNum y) \<Rightarrow> x \<le> y | _ \<Rightarrow> False)
      | _ \<Rightarrow> True)"

definition match_lte :: "(string \<times> operand) list \<Rightarrow> val option \<Rightarrow> bool" where
  "match_lte ops v =
     (case map_of ops ''$lte'' of
        Some (ONum x) \<Rightarrow> (case v of Some (VNum y) \<Rightarrow> y \<le> x | _ \<Rightarrow> False)
      | _ \<Rightarrow> True)"

definition match_all :: "(string \<times> operand) list \<Rightarrow> val option \<Rightarrow> bool" where
  "match_all ops v =
     (case map_of ops ''$all'' of
        Some (OList xs) \<Rightarrow>
          (case v of Some (VList have) \<Rightarrow> xs \<noteq> [] \<and> list_all (\<lambda>x. x \<in> set have) xs
           | _ \<Rightarrow> False)
      | _ \<Rightarrow> True)"

definition match_ops :: "regex_engine \<Rightarrow> (string \<times> operand) list \<Rightarrow> val option \<Rightarrow> bool" where
  "match_ops rx ops v =
     (match_regex rx ops v \<and> match_gte ops v \<and> match_lte ops v \<and> match_all ops v)"

definition match_key :: "regex_engine \<Rightarrow> (string \<times> val) list \<Rightarrow> string \<times> qvalue \<Rightarrow> bool" where
  "match_key rx doc kv =
     (case snd kv of
        Literal s \<Rightarrow> map_of doc (fst kv) = Some (VStr s)
      | Ops ops \<Rightarrow> match_ops rx ops (map_of doc (fst kv))
      | Clauses cs \<Rightarrow> list_ex (\<lambda>(field, ops). match_ops rx ops (map_of doc field)) cs)"

definition matches :: "regex_engine \<Rightarrow> (string \<times> val) list \<Rightarrow> query \<Rightarrow> bool" where
  "matches rx doc qry = list_all (match_key rx doc) qry"

definition ops_compile :: "regex_engine \<Rightarrow> (string \<times> operand) list \<Rightarrow> bool" where
  "ops_compile rx ops =
     (case map_of ops ''$regex'' of
        Some (OStr pat) \<Rightarrow> rx pat (regex_options ops) \<noteq> None
      | _ \<Rightarrow> True)"

definition query_compiles :: "regex_engine \<Rightarrow> query \<Rightarrow> bool" where
  "query_compiles rx qry =
     list_all (\<lambda>kv. case snd kv of
                 Literal s \<Rightarrow> True
               | Ops ops \<Rightarrow> ops_compile rx ops
               | Clauses cs \<Rightarrow> list_all (\<lambda>(field, ops). ops_compile rx ops) cs) qry"

definition find_many ::
  "regex_engine \<Rightarrow> ('d \<Rightarrow> (string \<times> val) list) \<Rightarrow> query \<Rightarrow> (oid \<times> 'd) list
     \<Rightarrow> error + (oid \<times> 'd) list" where
  "find_many rx dump qry coll =
     (if query_compiles rx qry then Inr (filter (\<lambda>(i, d). matches rx (dump d) qry) coll)
      else Inl OperationFailure)"

section \<open>Apartments\<close>

definition create_apartment :: "store \<Rightarrow> apartment_create \<Rightarrow> auth_user \<Rightarrow> (error + string) \<times> store" where
  "create_apartment st data user =
     (let apt = \<lparr>a_vendor_id = au_id user, a_title = ac_title data,
                  a_description = ac_description data, a_school = ac_school data,
                  a_location = ac_location data, a_price_monthly = ac_price_monthly data,
                  a_type = ac_type data, a_distance_km = ac_distance_km data,
                  a_amenities = ac_amenities data, a_photos = ac_photos data,
                  a_video_url = ac_video_url data, a_is_available = True,
                  a_rating_avg = 0, a_rating_count = 0\<rparr>;
          (inserted, st') = insert_apartment st apt
      in (Inr (str_oid inserted), st'))"

text \<open>\<^verbatim>\<open>str.split(sep)\<close> for a one-character separator.\<close>

fun split :: "char \<Rightarrow> string \<Rightarrow> string list" where
  "split sep [] = [[]]"
| "split sep (c # cs) =
     (if c = sep then [] # split sep cs
      else (case split sep cs of [] \<Rightarrow> [[c]] | w # ws \<Rightarrow> (c # w) # ws))"

text \<open>
  The query \<^verbatim>\<open>list_apartments\<close> builds. \<^verbatim>\<open>if school:\<close> is Python truthiness: it is
  false for \<^verbatim>\<open>None\<close> and for the empty string. The two price tests are
  \<^verbatim>\<open>is not None\<close>.
\<close>

definition build_query ::
  "string option \<Rightarrow> string option \<Rightarrow> real option \<Rightarrow> real option \<Rightarrow> string option \<Rightarrow> query" where
  "build_query school q min_price max_price amenities =
     (let qry0 = [];
          qry1 = (case school of
                    Some s \<Rightarrow> if s \<noteq> [] then qry0 @ [(''school'', Literal s)] else qry0
                  | None \<Rightarrow> qry0);
          qry2 = (case q of
                    Some t \<Rightarrow>
                      if t \<noteq> []
                      then qry1 @ [(''$or'', Clauses
                             [(''title'', [(''$regex'', OStr t), (''$options'', OStr ''i'')]),
                              (''location'', [(''$regex'', OStr t), (''$options'', OStr ''i'')]),
                              (''description'', [(''$regex'', OStr t), (''$options'', OStr ''i'')])])]
                      else qry1
                  | None \<Rightarrow> qry1);
          range0 = [];
          range1 = (case min_price of Some lo \<Rightarrow> range0 @ [(''$gte'', ONum lo)] | None \<Rightarrow> range0);
          range2 = (case max_price of Some hi \<Rightarrow> range1 @ [(''$lte'', ONum hi)] | None \<Rightarrow> range1);
          qry3 = (if range2 \<noteq> [] then qry2 @ [(''price_monthly'', Ops range2)] else qry2);
          qry4 = (case amenities of
                    Some am \<Rightarrow>
                      if am \<noteq> [] then qry3 @ [(''amenities'', Ops [(''$all'', OList (split CHR '','' am))])]
                      else qry3
                  | None \<Rightarrow> qry3)
      in qry4)"

definition list_apartments ::
  "regex_engine \<Rightarrow> store \<Rightarrow> string option \<Rightarrow> string option \<Rightarrow> real option \<Rightarrow> real option
     \<Rightarrow> string option \<Rightarrow> error + (string \<times> apartment) list" where
  "list_apartments rx st school q min_price max_price amenities =
     (case find_many rx apartment_dump (build_query school q min_price max_price amenities)
             (db_apartment st) of
        Inl e \<Rightarrow> Inl e
      | Inr cursor \<Rightarrow> Inr (list_with_id (sort_cursor apartment_dump ''created_at'' (- 1) cursor)))"

definition get_apartment :: "store \<Rightarrow> string \<Rightarrow> error + string \<times> apartment" where
  "get_apartment st apt_id =
     (case ObjectId apt_id of
        Inl e \<Rightarrow> Inl e
      | Inr k \<Rightarrow>
          (case find_one_by_id k (db_apartment st) of
             None \<Rightarrow> Inl (HTTPException 404 ''Not found'')
           | Some (i, doc) \<Rightarrow> Inr (str_oid i, doc)))"

section \<open>Reviews and the rating aggregate\<close>

datatype simple_ok = SimpleOK bool

text \<open>
  The aggregation pipeline of \<^verbatim>\<open>add_review\<close>: \<^verbatim>\<open>$match\<close> on the apartment id, then
  one \<^verbatim>\<open>$group\<close> with the average rating and the number of documents. It yields no
  group when nothing matches.
\<close>

definition aggregate_reviews :: "string \<Rightarrow> (oid \<times> review) list \<Rightarrow> (real \<times> int) list" where
  "aggregate_reviews apt_id coll =
     (let matched = filter (\<lambda>(i, r). r_apartment_id r = apt_id) coll
      in if matched = [] then []
         else [(real_of_int (sum_list (map (\<lambda>(i, r). r_rating r) matched)) / real (length matched),
                int (length matched))])"

definition add_review :: "store \<Rightarrow> string \<Rightarrow> review \<Rightarrow> auth_user \<Rightarrow> (error + simple_ok) \<times> store" where
  "add_review st apt_id payload user =
     (if r_apartment_id payload \<noteq> apt_id
      then (Inl (HTTPException 400 ''Mismatched apartment id''), st)
      else
        (let entry = payload\<lparr>r_user_id := au_id user\<rparr>;
             (rid, st1) = insert_review st entry;
             stats = aggregate_reviews apt_id (db_review st1)
         in (case stats of
               [] \<Rightarrow> (Inr (SimpleOK True), st1)
             | s # rest \<Rightarrow>
                 (case ObjectId apt_id of
                    Inl e \<Rightarrow> (Inl e, st1)
                  | Inr k \<Rightarrow>
                      (Inr (SimpleOK True),
                       st1\<lparr>db_apartment :=
                             update_one_by_id k
                               (\<lambda>a. a\<lparr>a_rating_avg := fst s, a_rating_count := snd s\<rparr>)
                               (db_apartment st1)\<rparr>)))))"

section \<open>Messaging\<close>

definition create_thread :: "store \<Rightarrow> string \<Rightarrow> auth_user \<Rightarrow> (error + string) \<times> store" where
  "create_thread st vendor_id user =
     (case find_one (\<lambda>t. t_student_id t = au_id user \<and> t_vendor_id t = vendor_id)
             (db_messagethread st) of
        Some (i, existing) \<Rightarrow> (Inr (str_oid i), st)
      | None \<Rightarrow>
          (let thread = \<lparr>t_student_id = au_id user, t_vendor_id = vendor_id,
                          t_last_message = None, t_last_time = None\<rparr>;
               (inserted, st') = insert_messagethread st thread
           in (Inr (str_oid inserted), st')))"

definition send_message ::
  "nat \<Rightarrow> store \<Rightarrow> send_message_body \<Rightarrow> auth_user \<Rightarrow> (error + simple_ok) \<times> store" where
  "send_message now st payload user =
     (case ObjectId (sm_thread_id payload) of
        Inl e \<Rightarrow> (Inl e, st)
      | Inr k \<Rightarrow>
          (case find_one_by_id k (db_messagethread st) of
             None \<Rightarrow> (Inl (HTTPException 404 ''Thread not found''), st)
           | Some (i, thread) \<Rightarrow>
               if au_role user = ''user'' \<and> t_student_id thread \<noteq> au_id user
               then (Inl (HTTPException 403 ''Not participant''), st)
               else if au_role user = ''vendor'' \<and> t_vendor_id thread \<noteq> au_id user
               then (Inl (HTTPException 403 ''Not participant''), st)
               else
                 (let msg = \<lparr>m_thread_id = sm_thread_id payload, m_from_user_id = au_id user,
                              m_to_user_id = (if au_role user = ''user'' then t_vendor_id thread
                                              else t_student_id thread),
                              m_body = sm_body payload\<rparr>;
                      (mid, st1) = insert_message st msg;
                      st2 = st1\<lparr>db_messagethread :=
                                  update_one_by_id k
                                    (\<lambda>t. t\<lparr>t_last_message := Some (sm_body payload),
                                            t_last_time := Some now\<rparr>)
                                    (db_messagethread st1)\<rparr>
                  in (Inr (SimpleOK True), st2))))"

definition thread_messages :: "store \<Rightarrow> string \<Rightarrow> auth_user \<Rightarrow> error + (string \<times> message) list" where
  "thread_messages st thread_id user =
     (case ObjectId thread_id of
        Inl e \<Rightarrow> Inl e
      | Inr k \<Rightarrow>
          (case find_one_by_id k (db_messagethread st) of
             None \<Rightarrow> Inl (HTTPException 404 ''Thread not found'')
           | Some (i, thread) \<Rightarrow>
               if au_role user = ''user'' \<and> t_student_id thread \<noteq> au_id user
               then Inl (HTTPException 403 ''Not participant'')
               else if au_role user = ''vendor'' \<and> t_vendor_id thread \<noteq> au_id user
               then Inl (HTTPException 403 ''Not participant'')
               else Inr (list_with_id
                           (sort_cursor message_dump ''created_at'' 1
                              (filter (\<lambda>(i, m). m_thread_id m = thread_id) (db_message st))))))"

section \<open>Routes: a handler behind its dependency\<close>

text \<open>
  A route runs its \<^verbatim>\<open>Depends(require_role(...))\<close> first and the handler body only
  when the dependency returned a principal.
\<close>

definition route_send_message ::
  "nat \<Rightarrow> store \<Rightarrow> send_message_body \<Rightarrow> token \<Rightarrow> (error + simple_ok) \<times> store" where
  "route_send_message now st payload tok =
     (case require_role [''user'', ''vendor''] (get_current_user now tok) of
        Inl e \<Rightarrow> (Inl e, st)
      | Inr user \<Rightarrow> send_message now st payload user)"

definition route_thread_messages ::
  "nat \<Rightarrow> store \<Rightarrow> string \<Rightarrow> token \<Rightarrow> error + (string \<times> message) list" where
  "route_thread_messages now st thread_id tok =
     (case require_role [''user'', ''vendor''] (get_current_user now tok) of
        Inl e \<Rightarrow> Inl e
      | Inr user \<Rightarrow> thread_messages st thread_id user)"

section \<open>Sample data and derived notions\<close>

text \<open>
  Concrete inputs to run the handlers on, and the notions the properties below are
  stated with. First a store holding one thread between student \<open>s1\<close> and vendor
  \<open>v1\<close>, and a signed token for a given principal and role.
\<close>

definition sample_thread :: message_thread where
  "sample_thread = \<lparr>t_student_id = ''s1'', t_vendor_id = ''v1'', t_last_message = None,
     t_last_time = None\<rparr>"

definition sample_store :: store where
  "sample_store = empty_store\<lparr>db_messagethread := [(0, sample_thread)], db_next_id := 1\<rparr>"

definition sample_token :: "string \<Rightarrow> string \<Rightarrow> token" where
  "sample_token uid rl = Signed \<lparr>c_sub = uid, c_role = rl, c_email = ''p@example.org'',
     c_name = ''P'', c_exp = 1000\<rparr>"

definition zero_id :: string where
  "zero_id = ''000000000000000000000000''"

definition email_registered :: "store \<Rightarrow> string \<Rightarrow> bool" where
  "email_registered st e = list_ex (\<lambda>(i, u). u_email u = e) (db_user st)"

text \<open>
  A password capability for running examples: verification recomputes the digest.
\<close>

definition sample_pwd :: pwd_context where
  "sample_pwd = \<lparr>pwd_hash = (\<lambda>p. ''$2b$'' @ p), pwd_verify = (\<lambda>p d. d = ''$2b$'' @ p)\<rparr>"

definition sample_registration :: "string \<Rightarrow> register_request" where
  "sample_registration rl = \<lparr>rr_role = rl, rr_full_name = ''Ada'', rr_email = ''ada@example.org'',
     rr_password = ''pw'', rr_phone = None, rr_school = None\<rparr>"

definition sample_user :: auth_user where
  "sample_user = \<lparr>au_id = ''u1'', au_role = ''user'', au_email = ''u1@example.org'',
     au_full_name = ''U''\<rparr>"

definition sample_review :: "string \<Rightarrow> int \<Rightarrow> review" where
  "sample_review apt n = \<lparr>r_apartment_id = apt, r_user_id = ''someone-else'', r_rating = n,
     r_comment = None\<rparr>"

text \<open>
  Two readings of "the reviews of an apartment". \<open>ratings_for\<close> takes the reviews
  that carry one given id string, which is what the \<^verbatim>\<open>$match\<close> stage of
  \<open>add_review\<close> selects. \<open>ratings_of_apartment\<close> takes every review whose id string
  names the apartment, in whatever spelling: \<open>ObjectId\<close> reads hexadecimal letters in
  either case, so one apartment has more than one id string.
\<close>

definition ratings_for :: "store \<Rightarrow> string \<Rightarrow> int list" where
  "ratings_for st apt_id =
     map (\<lambda>(i, r). r_rating r) (filter (\<lambda>(i, r). r_apartment_id r = apt_id) (db_review st))"

definition ratings_of_apartment :: "store \<Rightarrow> oid \<Rightarrow> int list" where
  "ratings_of_apartment st k =
     map (\<lambda>(i, r). r_rating r)
       (filter (\<lambda>(i, r). ObjectId (r_apartment_id r) = Inr k) (db_review st))"

definition sample_apartment :: "string \<Rightarrow> real \<Rightarrow> string list \<Rightarrow> apartment" where
  "sample_apartment title price amen =
     \<lparr>a_vendor_id = ''v1'', a_title = title, a_description = None, a_school = ''MIT'',
      a_location = ''Main Street'', a_price_monthly = price, a_type = ''studio'',
      a_distance_km = 1, a_amenities = amen, a_photos = [], a_video_url = None,
      a_is_available = True, a_rating_avg = 0, a_rating_count = 0\<rparr>"

definition listing_store :: store where
  "listing_store = empty_store\<lparr>db_apartment := [(0, sample_apartment ''Loft'' 500 [])],
     db_next_id := 1\<rparr>"

text \<open>
  Two spellings of the identifier of apartment 10, a store holding that apartment, and
  the store after a review of rating 5 under the first spelling and one of rating 3
  under the second.
\<close>

definition lower_id :: string where
  "lower_id = ''00000000000000000000000a''"

definition upper_id :: string where
  "upper_id = ''00000000000000000000000A''"

definition spelling_store :: store where
  "spelling_store = empty_store\<lparr>db_apartment := [(10, sample_apartment ''Loft'' 500 [])],
     db_next_id := 11\<rparr>"

definition spelling_store_after :: store where
  "spelling_store_after =
     snd (add_review
            (snd (add_review spelling_store lower_id (sample_review lower_id 5) sample_user))
            upper_id (sample_review upper_id 3) sample_user)"

text \<open>
  The number of threads stored for a (student, vendor) pair, and the stores the
  handlers can produce from the empty store. A failed call counts as a step too, with
  whatever it left in the store.
\<close>

definition thread_count :: "store \<Rightarrow> string \<Rightarrow> string \<Rightarrow> nat" where
  "thread_count st s v =
     length (filter (\<lambda>(i, t). t_student_id t = s \<and> t_vendor_id t = v) (db_messagethread st))"

inductive reachable :: "store \<Rightarrow> bool" where
  start: "reachable empty_store"
| after_register: "reachable st \<Longrightarrow> reachable (snd (register ctx now st data))"
| after_create_apartment: "reachable st \<Longrightarrow> reachable (snd (create_apartment st listing user))"
| after_add_review: "reachable st \<Longrightarrow> reachable (snd (add_review st apt_id payload user))"
| after_create_thread: "reachable st \<Longrightarrow> reachable (snd (create_thread st vendor_id user))"
| after_send_message: "reachable st \<Longrightarrow> reachable (snd (send_message now st body user))"

section \<open>Listing filters, as specified\<close>

text \<open>
  Lower-casing of ASCII letters, and an engine for running concrete queries. The engine
  implements the patterns made of ordinary characters and the wildcard \<open>.\<close> (any
  character but a newline), searched anywhere in the subject, and with option \<open>i\<close>
  without regard to case. It refuses every pattern that uses another metacharacter.
\<close>

definition upper_lower :: "(char \<times> char) list" where
  "upper_lower =
     [(CHR ''A'', CHR ''a''), (CHR ''B'', CHR ''b''), (CHR ''C'', CHR ''c''), (CHR ''D'',
      CHR ''d''), (CHR ''E'', CHR ''e''), (CHR ''F'', CHR ''f''), (CHR ''G'', CHR ''g''),
      (CHR ''H'', CHR ''h''), (CHR ''I'', CHR ''i''), (CHR ''J'', CHR ''j''), (CHR ''K'',
      CHR ''k''), (CHR ''L'', CHR ''l''), (CHR ''M'', CHR ''m''), (CHR ''N'', CHR ''n''),
      (CHR ''O'', CHR ''o''), (CHR ''P'', CHR ''p''), (CHR ''Q'', CHR ''q''), (CHR ''R'',
      CHR ''r''), (CHR ''S'', CHR ''s''), (CHR ''T'', CHR ''t''), (CHR ''U'', CHR ''u''),
      (CHR ''V'', CHR ''v''), (CHR ''W'', CHR ''w''), (CHR ''X'', CHR ''x''), (CHR ''Y'',
      CHR ''y''), (CHR ''Z'', CHR ''z'')]"

definition lower :: "char \<Rightarrow> char" where
  "lower c = (case map_of upper_lower c of Some l \<Rightarrow> l | None \<Rightarrow> c)"

fun match_here :: "bool \<Rightarrow> string \<Rightarrow> string \<Rightarrow> bool" where
  "match_here ci [] s = True"
| "match_here ci (p # ps) [] = False"
| "match_here ci (p # ps) (c # cs) =
     ((if p = CHR ''.'' then c \<noteq> CHR 0x0A else if ci then lower p = lower c else p = c)
      \<and> match_here ci ps cs)"

fun search_from :: "bool \<Rightarrow> string \<Rightarrow> string \<Rightarrow> bool" where
  "search_from ci pat [] = match_here ci pat []"
| "search_from ci pat (c # cs) = (match_here ci pat (c # cs) \<or> search_from ci pat cs)"

definition regex_meta :: "char list" where
  "regex_meta = [CHR 0x5C, CHR ''^'', CHR ''$'', CHR ''|'', CHR ''?'', CHR ''*'', CHR ''+'',
     CHR ''('', CHR '')'', CHR ''['', CHR '']'', CHR ''{'', CHR ''}'']"

definition literal_dot_engine :: regex_engine where
  "literal_dot_engine pat opts =
     (if list_ex (\<lambda>c. c \<in> set regex_meta) pat then None
      else Some (search_from (CHR ''i'' \<in> set opts) pat))"

text \<open>
  Case-insensitive containment of one string in another: the plain substring test.
\<close>

fun prefix_ci :: "string \<Rightarrow> string \<Rightarrow> bool" where
  "prefix_ci [] s = True"
| "prefix_ci (p # ps) [] = False"
| "prefix_ci (p # ps) (c # cs) = (lower p = lower c \<and> prefix_ci ps cs)"

fun substring_ci :: "string \<Rightarrow> string \<Rightarrow> bool" where
  "substring_ci pat [] = prefix_ci pat []"
| "substring_ci pat (c # cs) = (prefix_ci pat (c # cs) \<or> substring_ci pat cs)"

text \<open>
  The filter the listing is specified to apply, term by term. A filter that is absent
  or the empty string imposes nothing. \<open>school\<close> is equality. The free text is handed
  to the store's engine as a pattern with option \<open>i\<close> and must be found in the title,
  the location or the description. The two prices are inclusive bounds. The amenities
  string is split at commas and every piece must be among the listing's amenities.
\<close>

definition text_hit :: "regex_engine \<Rightarrow> string \<Rightarrow> apartment \<Rightarrow> bool" where
  "text_hit rx t a =
     (case rx t ''i'' of
        None \<Rightarrow> False
      | Some search \<Rightarrow>
          search (a_title a) \<or> search (a_location a)
          \<or> (case a_description a of Some d \<Rightarrow> search d | None \<Rightarrow> False))"

definition listing_filter ::
  "regex_engine \<Rightarrow> string option \<Rightarrow> string option \<Rightarrow> real option \<Rightarrow> real option
     \<Rightarrow> string option \<Rightarrow> apartment \<Rightarrow> bool" where
  "listing_filter rx school q min_price max_price amenities a =
     ((case school of Some s \<Rightarrow> s = [] \<or> a_school a = s | None \<Rightarrow> True)
    \<and> (case q of Some t \<Rightarrow> t = [] \<or> text_hit rx t a | None \<Rightarrow> True)
    \<and> (case min_price of Some lo \<Rightarrow> lo \<le> a_price_monthly a | None \<Rightarrow> True)
    \<and> (case max_price of Some hi \<Rightarrow> a_price_monthly a \<le> hi | None \<Rightarrow> True)
    \<and> (case amenities of
          Some am \<Rightarrow> am = [] \<or> set (split CHR '','' am) \<subseteq> set (a_amenities a)
        | None \<Rightarrow> True))"

definition pattern_compiles :: "regex_engine \<Rightarrow> string option \<Rightarrow> bool" where
  "pattern_compiles rx q = (case q of Some t \<Rightarrow> t = [] \<or> rx t ''i'' \<noteq> None | None \<Rightarrow> True)"

text \<open>
  Three listings priced 500, 1000 and 1500, and two listings created one after the
  other through \<open>create_apartment\<close>.
\<close>

definition price_store :: store where
  "price_store = empty_store\<lparr>db_apartment :=
       [(0, sample_apartment ''A'' 500 [''wifi'']),
        (1, sample_apartment ''B'' 1000 [''wifi'', ''ac'']),
        (2, sample_apartment ''C'' 1500 [''ac'', ''wifi'', ''pool''])],
     db_next_id := 3\<rparr>"

definition sample_vendor :: auth_user where
  "sample_vendor = \<lparr>au_id = ''v1'', au_role = ''vendor'', au_email = ''v1@example.org'',
     au_full_name = ''V''\<rparr>"

definition sample_listing :: "string \<Rightarrow> apartment_create" where
  "sample_listing title = \<lparr>ac_title = title, ac_description = None, ac_school = ''MIT'',
     ac_location = ''Main Street'', ac_price_monthly = 500, ac_type = ''studio'',
     ac_distance_km = 1, ac_amenities = [], ac_photos = [], ac_video_url = None\<rparr>"

definition two_listings :: store where
  "two_listings =
     snd (create_apartment
            (snd (create_apartment empty_store (sample_listing ''First'') sample_vendor))
            (sample_listing ''Second'') sample_vendor)"

section \<open>Identifier lemmas\<close>

lemma ObjectId_zero_id: "ObjectId zero_id = Inr 0"
  by (simp add: zero_id_def ObjectId_def valid_oid_string_def is_hex_def hex_val_def
      hex_digits_def hex_number_def)

lemma ObjectId_short: "ObjectId ''abc'' = Inl (InvalidId ''abc'')"
  by (simp add: ObjectId_def valid_oid_string_def)

section \<open>Messaging authorization\<close>

text \<open>
  C1. For every thread in the store and every principal a token authenticates, posting
  to the thread and reading it both fail with status 403 (Forbidden) unless the
  principal has role \<open>user\<close> and is the thread's student, or has role \<open>vendor\<close> and is
  the thread's vendor. A principal of any other role is stopped by the role check of
  the route, a \<open>user\<close> or \<open>vendor\<close> who is not that participant by the check in the
  handler; so a third principal, who is neither participant, is always refused. The
  refused post leaves the store as it was.
\<close>

theorem messaging_forbidden_unless_participant:
  assumes "get_current_user now tok = Inr u"
      and "ObjectId thread_id = Inr k"
      and "find_one_by_id k (db_messagethread st) = Some (i, thread)"
      and "\<not> ((au_role u = ''user'' \<and> au_id u = t_student_id thread)
             \<or> (au_role u = ''vendor'' \<and> au_id u = t_vendor_id thread))"
  shows "(\<exists>d. route_send_message now st \<lparr>sm_thread_id = thread_id, sm_body = body\<rparr> tok
              = (Inl (HTTPException 403 d), st))
       \<and> (\<exists>d. route_thread_messages now st thread_id tok = Inl (HTTPException 403 d))"
  using assms
  by (auto simp: route_send_message_def route_thread_messages_def require_role_def
        send_message_def thread_messages_def)

theorem messaging_forbidden_unless_participant_witness:
  "(\<exists>d. route_send_message 0 sample_store \<lparr>sm_thread_id = zero_id, sm_body = ''hi''\<rparr>
          (sample_token ''x9'' ''user'') = (Inl (HTTPException 403 d), sample_store))
   \<and> (\<exists>d. route_thread_messages 0 sample_store zero_id (sample_token ''x9'' ''user'')
          = Inl (HTTPException 403 d))"
proof -
  let ?u = "\<lparr>au_id = ''x9'', au_role = ''user'', au_email = ''p@example.org'',
             au_full_name = ''P''\<rparr>"
  have h1: "get_current_user 0 (sample_token ''x9'' ''user'') = Inr ?u"
    by (simp add: get_current_user_def sample_token_def)
  have h3: "find_one_by_id 0 (db_messagethread sample_store) = Some (0, sample_thread)"
    by (simp add: find_one_by_id_def sample_store_def)
  have h4: "\<not> ((au_role ?u = ''user'' \<and> au_id ?u = t_student_id sample_thread)
             \<or> (au_role ?u = ''vendor'' \<and> au_id ?u = t_vendor_id sample_thread))"
    by (simp add: sample_thread_def)
  show ?thesis
    by (rule messaging_forbidden_unless_participant [OF h1 ObjectId_zero_id h3 h4])
qed

section \<open>Registration\<close>

lemma find_append:
  "find P (xs @ ys) = (case find P xs of None \<Rightarrow> find P ys | Some x \<Rightarrow> Some x)"
  by (induction xs) auto

lemma find_one_registered:
  "(find_one (\<lambda>u. u_email u = e) (db_user st) = None) = (\<not> email_registered st e)"
  by (auto simp: find_one_def email_registered_def find_None_iff list_ex_iff)

lemma register_fresh:
  assumes "\<not> email_registered st (rr_email data)"
  shows "register ctx now st data =
     (Inr (create_access_token now (str_oid (db_next_id st)) (rr_role data) (rr_email data)
             (rr_full_name data)),
      st\<lparr>db_user := db_user st @
            [(db_next_id st,
              \<lparr>u_role = rr_role data, u_full_name = rr_full_name data,
               u_email = rr_email data, u_password_hash = pwd_hash ctx (rr_password data),
               u_phone = rr_phone data, u_school = rr_school data,
               u_avatar_url = None, u_is_verified = False\<rparr>)],
          db_next_id := Suc (db_next_id st)\<rparr>)"
proof -
  have "find_one (\<lambda>u. u_email u = rr_email data) (db_user st) = None"
    using assms by (simp add: find_one_registered)
  then show ?thesis
    by (simp add: register_def insert_user_def)
qed


text \<open>
  C2. \<open>register\<close> copies the role string of the request into the stored user record
  and into the claims of the token it issues, whatever the string is: nothing compares
  it with \<open>user\<close>, \<open>vendor\<close> or \<open>admin\<close>. With a fresh email the call succeeds, and
  when the requested role is \<open>admin\<close> the issued token passes
  \<open>require_role [''admin'']\<close> at every time before its expiry.
\<close>

theorem register_role_unvalidated:
  assumes "\<not> email_registered st (rr_email data)"
  shows "\<exists>c st' usr.
           register ctx now st data = (Inr (Signed c), st')
         \<and> db_user st' = db_user st @ [(db_next_id st, usr)]
         \<and> u_role usr = rr_role data
         \<and> c_role c = rr_role data
         \<and> c_sub c = str_oid (db_next_id st)
         \<and> (rr_role data = ''admin'' \<longrightarrow>
              (\<forall>later. later < c_exp c \<longrightarrow>
                 (\<exists>u. require_role [''admin''] (get_current_user later (Signed c)) = Inr u
                      \<and> au_id u = str_oid (db_next_id st))))"
  by (simp add: register_fresh [OF assms] create_access_token_def get_current_user_def
      require_role_def)

theorem register_role_unvalidated_witness:
  "\<exists>c st'. register sample_pwd 0 empty_store (sample_registration ''admin'') = (Inr (Signed c), st')
     \<and> c_role c = ''admin''
     \<and> (\<exists>u. require_role [''admin''] (get_current_user 5 (Signed c)) = Inr u)"
proof -
  have fresh: "\<not> email_registered empty_store (rr_email (sample_registration ''admin''))"
    by (simp add: email_registered_def empty_store_def)
  from register_role_unvalidated [OF fresh, of sample_pwd 0]
  obtain c st' where r: "register sample_pwd 0 empty_store (sample_registration ''admin'') = (Inr (Signed c), st')"
    and rl: "c_role c = rr_role (sample_registration ''admin'')"
    and adm: "rr_role (sample_registration ''admin'') = ''admin'' \<longrightarrow>
              (\<forall>later. later < c_exp c \<longrightarrow>
                 (\<exists>u. require_role [''admin''] (get_current_user later (Signed c)) = Inr u
                      \<and> au_id u = str_oid (db_next_id empty_store)))"
    by blast
  have e: "c_exp c = 604800"
    using r by (simp add: register_fresh [OF fresh] create_access_token_def
        ACCESS_TOKEN_EXPIRE_MINUTES_def) (auto)
  have five: "(5::nat) < c_exp c"
    using e by simp
  have "rr_role (sample_registration ''admin'') = ''admin''"
    by (simp add: sample_registration_def)
  with adm five have "\<exists>u. require_role [''admin''] (get_current_user 5 (Signed c)) = Inr u"
    by blast
  with r rl show ?thesis by (auto simp: sample_registration_def)
qed



section \<open>Lookup by identifier\<close>

lemma valid_zero_id: "valid_oid_string zero_id"
  by (simp add: zero_id_def valid_oid_string_def is_hex_def hex_val_def hex_digits_def)

text \<open>
  The string \<open>abc\<close> is not an identifier. \<open>get_apartment\<close> hands it to \<open>ObjectId\<close>
  before it looks anything up, and the \<open>InvalidId\<close> that raises leaves the handler
  uncaught: the request ends neither in status 404 nor in status 400.
\<close>

theorem get_apartment_malformed_id_counterexample:
  "get_apartment empty_store ''abc'' = Inl (InvalidId ''abc'')"
  by (simp add: get_apartment_def ObjectId_short)

text \<open>
  C3, as the code has it. An id-string that is malformed (its length is not 24, or it
  holds a character that is neither a hexadecimal digit nor white space) makes
  \<open>get_apartment\<close> end in the uncaught \<open>InvalidId\<close> of the identifier constructor.
  An id-string that is well formed and names no stored apartment makes it fail with
  status 404, detail \<open>Not found\<close>.
\<close>

theorem get_apartment_lookup_failures:
  "(malformed_id apt_id \<longrightarrow> get_apartment st apt_id = Inl (InvalidId apt_id))
   \<and> (valid_oid_string apt_id
        \<and> \<not> list_ex (\<lambda>(i, a). i = hex_number apt_id) (db_apartment st) \<longrightarrow>
      get_apartment st apt_id = Inl (HTTPException 404 ''Not found''))"
proof (intro conjI impI)
  assume "malformed_id apt_id"
  then have "\<not> valid_oid_string apt_id"
    by (auto simp: malformed_id_def valid_oid_string_def list_ex_iff list_all_iff)
  then show "get_apartment st apt_id = Inl (InvalidId apt_id)"
    by (simp add: get_apartment_def ObjectId_def)
next
  assume a: "valid_oid_string apt_id
        \<and> \<not> list_ex (\<lambda>(i, a). i = hex_number apt_id) (db_apartment st)"
  then have "find_one_by_id (hex_number apt_id) (db_apartment st) = None"
    by (auto simp: find_one_by_id_def find_None_iff list_ex_iff)
  with a show "get_apartment st apt_id = Inl (HTTPException 404 ''Not found'')"
    by (simp add: get_apartment_def ObjectId_def)
qed

theorem get_apartment_lookup_failures_witness:
  "get_apartment empty_store ''abc'' = Inl (InvalidId ''abc'')
   \<and> get_apartment empty_store zero_id = Inl (HTTPException 404 ''Not found'')"
proof -
  have bad: "malformed_id ''abc''"
    by (simp add: malformed_id_def)
  have absent: "valid_oid_string zero_id
      \<and> \<not> list_ex (\<lambda>(i, a). i = hex_number zero_id) (db_apartment empty_store)"
    by (simp add: valid_zero_id empty_store_def)
  from get_apartment_lookup_failures [of "''abc''" empty_store] bad
  have one: "get_apartment empty_store ''abc'' = Inl (InvalidId ''abc'')" by blast
  from get_apartment_lookup_failures [of zero_id empty_store] absent
  have two: "get_apartment empty_store zero_id = Inl (HTTPException 404 ''Not found'')" by blast
  from one two show ?thesis by simp
qed

section \<open>Reviews\<close>

text \<open>
  The handlers that check before they write: a failed \<open>register\<close>, a failed
  \<open>send_message\<close> and an \<open>add_review\<close> refused for its apartment id leave the store
  as it was.
\<close>

lemma register_failure_keeps_store:
  "register ctx now st data = (Inl e, st') \<Longrightarrow> st' = st"
  by (auto simp: register_def insert_user_def Let_def split: option.splits)

lemma send_message_failure_keeps_store:
  "send_message now st body user = (Inl e, st') \<Longrightarrow> st' = st"
  by (auto simp: send_message_def insert_message_def Let_def
      split: sum.splits option.splits if_splits)

lemma add_review_mismatch_keeps_store:
  "r_apartment_id payload \<noteq> apt_id \<Longrightarrow>
   add_review st apt_id payload user = (Inl (HTTPException 400 ''Mismatched apartment id''), st)"
  by (simp add: add_review_def)

text \<open>
  C8, at an input where it fails. A principal posts a review to the path id \<open>abc\<close>
  with the same id in the body. The mismatch check passes, the review is inserted, the
  aggregate finds it, and only then is \<open>ObjectId\<close> applied to the path id: the call
  ends in \<open>InvalidId\<close> with the review already stored.
\<close>

theorem add_review_failure_keeps_inserted_review:
  "add_review empty_store ''abc'' (sample_review ''abc'' 5) sample_user
     = (Inl (InvalidId ''abc''),
        empty_store\<lparr>db_review := [(0, (sample_review ''abc'' 5)\<lparr>r_user_id := ''u1''\<rparr>)],
                     db_next_id := 1\<rparr>)"
  by (simp add: add_review_def sample_review_def sample_user_def insert_review_def
      empty_store_def aggregate_reviews_def ObjectId_short)

text \<open>
  C10. The review \<open>add_review\<close> stores is the payload with its \<open>user_id\<close> replaced by
  the id of the principal: whatever \<open>user_id\<close> the payload carries, the stored review
  names the caller. When the payload's apartment id differs from the path id nothing
  is stored.
\<close>

theorem add_review_user_id_is_principal:
  "(r_apartment_id payload = apt_id \<longrightarrow>
      (\<exists>entry. db_review (snd (add_review st apt_id payload user))
                  = db_review st @ [(db_next_id st, entry)]
               \<and> r_user_id entry = au_id user
               \<and> entry = payload\<lparr>r_user_id := au_id user\<rparr>))
   \<and> (r_apartment_id payload \<noteq> apt_id \<longrightarrow>
      db_review (snd (add_review st apt_id payload user)) = db_review st)"
  by (auto simp: add_review_def insert_review_def Let_def split: list.splits sum.splits)

theorem add_review_user_id_is_principal_witness:
  "r_user_id (sample_review zero_id 5) = ''someone-else''
   \<and> (\<exists>entry. db_review (snd (add_review empty_store zero_id (sample_review zero_id 5) sample_user))
                 = [(0, entry)]
              \<and> r_user_id entry = ''u1'')"
proof -
  have same: "r_apartment_id (sample_review zero_id 5) = zero_id"
    by (simp add: sample_review_def)
  from add_review_user_id_is_principal [of "sample_review zero_id 5" zero_id empty_store sample_user]
    same
  have "\<exists>entry. db_review (snd (add_review empty_store zero_id (sample_review zero_id 5) sample_user))
                  = db_review empty_store @ [(db_next_id empty_store, entry)]
               \<and> r_user_id entry = au_id sample_user"
    by blast
  then show ?thesis
    by (simp add: empty_store_def sample_user_def sample_review_def)
qed

section \<open>The rating aggregate\<close>

lemma find_update_one_by_id:
  "find_one_by_id k coll = Some (i, d) \<Longrightarrow>
   find_one_by_id k (update_one_by_id k f coll) = Some (i, f d)"
  by (induction coll) (auto simp: find_one_by_id_def split: if_splits)

lemma aggregate_reviews_ratings:
  "aggregate_reviews apt_id (db_review st) =
     (if ratings_for st apt_id = [] then []
      else [(real_of_int (sum_list (ratings_for st apt_id)) / real (length (ratings_for st apt_id)),
             int (length (ratings_for st apt_id)))])"
  by (simp add: aggregate_reviews_def ratings_for_def Let_def)

lemma ratings_after_insert:
  "ratings_for (snd (insert_review st (payload\<lparr>r_user_id := uid\<rparr>))) (r_apartment_id payload)
     = ratings_for st (r_apartment_id payload) @ [r_rating payload]"
  by (simp add: ratings_for_def insert_review_def)

lemma add_review_success:
  assumes "add_review st apt_id payload user = (Inr ok, st')"
      and "ObjectId apt_id = Inr k"
  shows "ratings_for st' apt_id \<noteq> []
       \<and> db_review st' = db_review st @ [(db_next_id st, payload\<lparr>r_user_id := au_id user\<rparr>)]
       \<and> db_apartment st' =
           update_one_by_id k
             (\<lambda>a. a\<lparr>a_rating_avg := real_of_int (sum_list (ratings_for st' apt_id))
                                      / real (length (ratings_for st' apt_id)),
                    a_rating_count := int (length (ratings_for st' apt_id))\<rparr>)
             (db_apartment st)"
proof -
  from assms(1) have same: "r_apartment_id payload = apt_id"
    by (auto simp: add_review_def split: if_splits)
  let ?st1 = "snd (insert_review st (payload\<lparr>r_user_id := au_id user\<rparr>))"
  have r1: "ratings_for ?st1 apt_id = ratings_for st apt_id @ [r_rating payload]"
    using ratings_after_insert [where st = st and payload = payload and uid = "au_id user"] same by simp
  then have ne: "ratings_for ?st1 apt_id \<noteq> []" by simp
  have ap: "db_apartment ?st1 = db_apartment st" and rv: "db_review ?st1
      = db_review st @ [(db_next_id st, payload\<lparr>r_user_id := au_id user\<rparr>)]"
    by (simp_all add: insert_review_def)
  let ?f = "\<lambda>a. a\<lparr>a_rating_avg := real_of_int (sum_list (ratings_for ?st1 apt_id))
                                      / real (length (ratings_for ?st1 apt_id)),
                    a_rating_count := int (length (ratings_for ?st1 apt_id))\<rparr>"
  have st': "st' = ?st1\<lparr>db_apartment := update_one_by_id k ?f (db_apartment ?st1)\<rparr>"
    using assms same ne
    by (simp add: add_review_def Let_def split_beta aggregate_reviews_ratings)
  have same_reviews: "ratings_for st' apt_id = ratings_for ?st1 apt_id"
    by (simp add: st' ratings_for_def)
  show ?thesis
    using ne by (simp add: same_reviews) (simp add: st' ap rv)
qed

lemma ObjectId_lower_id: "ObjectId lower_id = Inr 10"
  by (simp add: lower_id_def ObjectId_def valid_oid_string_def is_hex_def hex_val_def
      hex_digits_def hex_number_def)

lemma ObjectId_upper_id: "ObjectId upper_id = Inr 10"
  by (simp add: upper_id_def ObjectId_def valid_oid_string_def is_hex_def hex_val_def
      hex_digits_def hex_number_def)

lemma spellings_differ: "lower_id \<noteq> upper_id"
  by (simp add: lower_id_def upper_id_def)

lemma first_review_under_lower_id:
  "add_review spelling_store lower_id (sample_review lower_id 5) sample_user
     = (Inr (SimpleOK True),
        \<lparr>db_user = [],
         db_apartment = [(10, (sample_apartment ''Loft'' 500 [])\<lparr>a_rating_avg := 5,
                                a_rating_count := 1\<rparr>)],
         db_review = [(11, (sample_review lower_id 5)\<lparr>r_user_id := ''u1''\<rparr>)],
         db_messagethread = [], db_message = [], db_next_id = 12\<rparr>)"
  by (simp add: add_review_def sample_review_def sample_user_def insert_review_def
      aggregate_reviews_def ObjectId_lower_id spelling_store_def empty_store_def Let_def)

lemma second_review_under_upper_id:
  "add_review
     \<lparr>db_user = [],
      db_apartment = [(10, (sample_apartment ''Loft'' 500 [])\<lparr>a_rating_avg := 5,
                             a_rating_count := 1\<rparr>)],
      db_review = [(11, (sample_review lower_id 5)\<lparr>r_user_id := ''u1''\<rparr>)],
      db_messagethread = [], db_message = [], db_next_id = 12\<rparr>
     upper_id (sample_review upper_id 3) sample_user
     = (Inr (SimpleOK True),
        \<lparr>db_user = [],
         db_apartment = [(10, (sample_apartment ''Loft'' 500 [])\<lparr>a_rating_avg := 3,
                                a_rating_count := 1\<rparr>)],
         db_review = [(11, (sample_review lower_id 5)\<lparr>r_user_id := ''u1''\<rparr>),
                      (12, (sample_review upper_id 3)\<lparr>r_user_id := ''u1''\<rparr>)],
         db_messagethread = [], db_message = [], db_next_id = 13\<rparr>)"
  using spellings_differ
  by (simp add: add_review_def sample_review_def sample_user_def insert_review_def
      aggregate_reviews_def ObjectId_upper_id Let_def)

text \<open>
  Apartment 10 is reviewed with rating 5 under the lower-case spelling of its id and
  then with rating 3 under the upper-case spelling. Both calls succeed and both
  reviews name apartment 10, yet the apartment ends with \<open>rating_avg = 3\<close> and
  \<open>rating_count = 1\<close>: the second aggregation saw only the review stored under its own
  spelling.
\<close>

theorem rating_ignores_other_spelling_counterexample:
  "fst (add_review spelling_store lower_id (sample_review lower_id 5) sample_user)
     = Inr (SimpleOK True)
   \<and> fst (add_review
            (snd (add_review spelling_store lower_id (sample_review lower_id 5) sample_user))
            upper_id (sample_review upper_id 3) sample_user)
     = Inr (SimpleOK True)
   \<and> ObjectId lower_id = Inr 10
   \<and> ObjectId upper_id = Inr 10
   \<and> ratings_of_apartment spelling_store_after 10 = [5, 3]
   \<and> find_one_by_id 10 (db_apartment spelling_store_after)
     = Some (10, (sample_apartment ''Loft'' 500 [])\<lparr>a_rating_avg := 3, a_rating_count := 1\<rparr>)"
proof -
  have after: "spelling_store_after =
     \<lparr>db_user = [],
      db_apartment = [(10, (sample_apartment ''Loft'' 500 [])\<lparr>a_rating_avg := 3,
                             a_rating_count := 1\<rparr>)],
      db_review = [(11, (sample_review lower_id 5)\<lparr>r_user_id := ''u1''\<rparr>),
                   (12, (sample_review upper_id 3)\<lparr>r_user_id := ''u1''\<rparr>)],
      db_messagethread = [], db_message = [], db_next_id = 13\<rparr>"
    by (simp add: spelling_store_after_def first_review_under_lower_id
        second_review_under_upper_id)
  have ratings: "ratings_of_apartment spelling_store_after 10 = [5, 3]"
    unfolding after
    by (simp add: ratings_of_apartment_def sample_review_def ObjectId_lower_id
        ObjectId_upper_id)
  have found: "find_one_by_id 10 (db_apartment spelling_store_after)
     = Some (10, (sample_apartment ''Loft'' 500 [])\<lparr>a_rating_avg := 3, a_rating_count := 1\<rparr>)"
    unfolding after by (simp add: find_one_by_id_def)
  show ?thesis
    using ratings found
    by (simp add: first_review_under_lower_id second_review_under_upper_id
        ObjectId_lower_id ObjectId_upper_id)
qed

text \<open>
  C6, as the code has it. After every successful \<open>add_review\<close> for a stored
  apartment, the apartment's \<open>rating_avg\<close> is the mean and its \<open>rating_count\<close> the
  number of the ratings of all reviews stored under the id string of the request;
  reviews stored under another spelling of the same identifier are not counted.
  Ratings 5 and then 3 under one id string leave the apartment with \<open>rating_avg = 4\<close>
  and \<open>rating_count = 2\<close>. The mean is taken in exact arithmetic.
\<close>

theorem add_review_recomputes_rating:
  assumes "add_review st apt_id payload user = (Inr ok, st')"
      and "ObjectId apt_id = Inr k"
      and "find_one_by_id k (db_apartment st) = Some (i, a)"
  shows "\<exists>a'. find_one_by_id k (db_apartment st') = Some (i, a')
            \<and> ratings_for st' apt_id \<noteq> []
            \<and> a_rating_avg a' = real_of_int (sum_list (ratings_for st' apt_id))
                                  / real (length (ratings_for st' apt_id))
            \<and> a_rating_count a' = int (length (ratings_for st' apt_id))"
  using add_review_success [OF assms(1,2)] find_update_one_by_id [OF assms(3)]
  by simp

theorem add_review_recomputes_rating_witness:
  "\<exists>st1 st2 a'.
      add_review listing_store zero_id (sample_review zero_id 5) sample_user = (Inr (SimpleOK True), st1)
    \<and> add_review st1 zero_id (sample_review zero_id 3) sample_user = (Inr (SimpleOK True), st2)
    \<and> find_one_by_id 0 (db_apartment st2) = Some (0, a')
    \<and> a_rating_avg a' = 4 \<and> a_rating_count a' = 2"
proof -
  obtain st1 where s1: "st1 = snd (add_review listing_store zero_id (sample_review zero_id 5) sample_user)"
    by simp
  obtain st2 where s2: "st2 = snd (add_review st1 zero_id (sample_review zero_id 3) sample_user)"
    by simp
  have r1: "add_review listing_store zero_id (sample_review zero_id 5) sample_user = (Inr (SimpleOK True), st1)"
    unfolding s1
    by (simp add: add_review_def sample_review_def insert_review_def aggregate_reviews_def
        ObjectId_zero_id Let_def)
  have rev1: "db_review st1 = [(1, (sample_review zero_id 5)\<lparr>r_user_id := ''u1''\<rparr>)]"
    unfolding s1
    by (simp add: add_review_def sample_review_def insert_review_def aggregate_reviews_def
        ObjectId_zero_id Let_def listing_store_def empty_store_def sample_user_def)
  have apt1: "find_one_by_id 0 (db_apartment st1) \<noteq> None"
    unfolding s1
    by (simp add: add_review_def sample_review_def insert_review_def aggregate_reviews_def
        ObjectId_zero_id Let_def listing_store_def empty_store_def find_one_by_id_def)
  then obtain i a where f1: "find_one_by_id 0 (db_apartment st1) = Some (i, a)" by auto
  then have i0: "i = 0"
    by (auto simp: find_one_by_id_def find_Some_iff)
  have r2: "add_review st1 zero_id (sample_review zero_id 3) sample_user = (Inr (SimpleOK True), st2)"
    unfolding s2
    by (simp add: add_review_def sample_review_def insert_review_def aggregate_reviews_def
        ObjectId_zero_id Let_def)
  have rev2: "ratings_for st2 zero_id = [5, 3]"
    using add_review_success [OF r2 ObjectId_zero_id] rev1
    by (simp add: ratings_for_def sample_review_def)
  from add_review_recomputes_rating [OF r2 ObjectId_zero_id f1] rev2 i0
  obtain a' where "find_one_by_id 0 (db_apartment st2) = Some (0, a')"
    "a_rating_avg a' = 4" "a_rating_count a' = 2" by auto
  with r1 r2 show ?thesis by blast
qed

section \<open>Thread creation\<close>

lemma threads_after_register: "db_messagethread (snd (register ctx now st data)) = db_messagethread st"
  by (simp add: register_def insert_user_def Let_def split: option.splits)

lemma threads_after_create_apartment:
  "db_messagethread (snd (create_apartment st listing user)) = db_messagethread st"
  by (simp add: create_apartment_def insert_apartment_def Let_def)

lemma threads_after_add_review:
  "db_messagethread (snd (add_review st apt_id payload user)) = db_messagethread st"
  by (simp add: add_review_def insert_review_def Let_def split: list.splits sum.splits)

lemma filter_update_one_by_id:
  assumes "\<And>d. P (f d) = P d"
  shows "length (filter (\<lambda>(i, d). P d) (update_one_by_id k f coll))
       = length (filter (\<lambda>(i, d). P d) coll)"
  by (induction coll) (auto simp: assms)

lemma thread_count_after_send_message:
  "thread_count (snd (send_message now st body user)) s v = thread_count st s v"
proof -
  have upd: "\<And>k coll. length (filter (\<lambda>(i, t). t_student_id t = s \<and> t_vendor_id t = v)
        (update_one_by_id k (\<lambda>t. t\<lparr>t_last_message := Some (sm_body body),
                                            t_last_time := Some now\<rparr>) coll))
      = length (filter (\<lambda>(i, t). t_student_id t = s \<and> t_vendor_id t = v) coll)"
    by (rule filter_update_one_by_id) simp
  show ?thesis
    by (simp add: send_message_def thread_count_def insert_message_def Let_def upd
        split: sum.splits option.splits)
qed

lemma find_one_thread_count:
  "(find_one (\<lambda>t. t_student_id t = s \<and> t_vendor_id t = v) (db_messagethread st) = None)
     = (thread_count st s v = 0)"
  by (auto simp: find_one_def thread_count_def find_None_iff filter_empty_conv)

lemma create_thread_existing:
  assumes "find_one (\<lambda>t. t_student_id t = au_id user \<and> t_vendor_id t = vendor_id)
             (db_messagethread st) = Some (i, t)"
  shows "create_thread st vendor_id user = (Inr (str_oid i), st)"
  using assms by (simp add: create_thread_def)

lemma create_thread_new:
  assumes "find_one (\<lambda>t. t_student_id t = au_id user \<and> t_vendor_id t = vendor_id)
             (db_messagethread st) = None"
  shows "create_thread st vendor_id user
       = (Inr (str_oid (db_next_id st)),
          st\<lparr>db_messagethread := db_messagethread st @
                [(db_next_id st, \<lparr>t_student_id = au_id user, t_vendor_id = vendor_id,
                                  t_last_message = None, t_last_time = None\<rparr>)],
             db_next_id := Suc (db_next_id st)\<rparr>)"
  using assms by (simp add: create_thread_def insert_messagethread_def)

lemma thread_count_after_create_thread:
  "thread_count (snd (create_thread st vendor_id user)) s v
     = (if s = au_id user \<and> v = vendor_id \<and> thread_count st s v = 0 then 1
        else thread_count st s v)"
proof (cases "find_one (\<lambda>t. t_student_id t = au_id user \<and> t_vendor_id t = vendor_id)
             (db_messagethread st)")
  case None
  then have zero: "thread_count st (au_id user) vendor_id = 0"
    by (simp add: find_one_thread_count)
  show ?thesis
    using zero by (auto simp: create_thread_new [OF None] thread_count_def)
next
  case (Some found)
  then have pos: "thread_count st (au_id user) vendor_id \<noteq> 0"
    using find_one_thread_count [of "au_id user" vendor_id st] by simp
  obtain i t where "found = (i, t)" by (cases found)
  with Some show ?thesis
    using pos by (auto simp: create_thread_existing)
qed

lemma reachable_threads_unique: "reachable st \<Longrightarrow> thread_count st s v \<le> 1"
proof (induction arbitrary: s v rule: reachable.induct)
  case start
  show ?case by (simp add: thread_count_def empty_store_def)
next
  case (after_register st ctx now data)
  then show ?case by (simp add: thread_count_def threads_after_register)
next
  case (after_create_apartment st listing user)
  then show ?case by (simp add: thread_count_def threads_after_create_apartment)
next
  case (after_add_review st apt_id payload user)
  then show ?case by (simp add: thread_count_def threads_after_add_review)
next
  case (after_create_thread st vendor_id user)
  then show ?case by (simp add: thread_count_after_create_thread)
next
  case (after_send_message st now body user)
  then show ?case by (simp add: thread_count_after_send_message)
qed

lemma create_thread_twice:
  "\<exists>tid st1. create_thread st vendor_id user = (Inr tid, st1)
           \<and> create_thread st1 vendor_id user = (Inr tid, st1)"
proof (cases "find_one (\<lambda>t. t_student_id t = au_id user \<and> t_vendor_id t = vendor_id)
             (db_messagethread st)")
  case None
  let ?st1 = "st\<lparr>db_messagethread := db_messagethread st @
                [(db_next_id st, \<lparr>t_student_id = au_id user, t_vendor_id = vendor_id,
                                  t_last_message = None, t_last_time = None\<rparr>)],
             db_next_id := Suc (db_next_id st)\<rparr>"
  from None have nf: "find (\<lambda>(i, t). t_student_id t = au_id user \<and> t_vendor_id t = vendor_id)
      (db_messagethread st) = None"
    by (simp add: find_one_def)
  have "find_one (\<lambda>t. t_student_id t = au_id user \<and> t_vendor_id t = vendor_id)
             (db_messagethread ?st1)
      = Some (db_next_id st, \<lparr>t_student_id = au_id user, t_vendor_id = vendor_id,
                                  t_last_message = None, t_last_time = None\<rparr>)"
    by (simp add: find_one_def find_append nf)
  then have "create_thread ?st1 vendor_id user = (Inr (str_oid (db_next_id st)), ?st1)"
    by (rule create_thread_existing)
  with create_thread_new [OF None] show ?thesis by simp
next
  case (Some found)
  obtain i t where "found = (i, t)" by (cases found)
  with Some have "create_thread st vendor_id user = (Inr (str_oid i), st)"
    by (simp add: create_thread_existing)
  then show ?thesis by simp
qed

text \<open>
  C7. Thread creation is idempotent. In every store the handlers can reach, two
  successive \<open>create_thread\<close> calls for the same student and vendor return the same
  thread id, and the second changes nothing; afterwards the store holds exactly one
  thread for that pair and at most one for any pair. When a thread for the pair is
  already stored, the call returns the id of that thread and leaves the store as it
  is, inserting nothing.
\<close>

theorem create_thread_idempotent:
  assumes "reachable st"
  shows "\<exists>tid st1.
           create_thread st vendor_id user = (Inr tid, st1)
         \<and> create_thread st1 vendor_id user = (Inr tid, st1)
         \<and> thread_count st1 (au_id user) vendor_id = 1
         \<and> (\<forall>s v. thread_count st1 s v \<le> 1)
         \<and> (\<forall>i t. find_one (\<lambda>t. t_student_id t = au_id user \<and> t_vendor_id t = vendor_id)
                      (db_messagethread st) = Some (i, t)
                    \<longrightarrow> tid = str_oid i \<and> st1 = st)"
proof -
  from create_thread_twice obtain tid st1 where
    one: "create_thread st vendor_id user = (Inr tid, st1)" and
    two: "create_thread st1 vendor_id user = (Inr tid, st1)" by blast
  have st1: "st1 = snd (create_thread st vendor_id user)"
    by (simp add: one)
  have r1: "reachable st1"
    unfolding st1 using assms by (rule reachable.after_create_thread)
  have uniq: "\<forall>s v. thread_count st1 s v \<le> 1"
    using r1 reachable_threads_unique by blast
  have le: "thread_count st (au_id user) vendor_id \<le> 1"
    using assms by (rule reachable_threads_unique)
  have cnt: "thread_count st1 (au_id user) vendor_id = 1"
    unfolding st1 using le by (simp add: thread_count_after_create_thread)
  have short: "\<forall>i t. find_one (\<lambda>t. t_student_id t = au_id user \<and> t_vendor_id t = vendor_id)
                      (db_messagethread st) = Some (i, t)
                    \<longrightarrow> tid = str_oid i \<and> st1 = st"
    using one by (auto simp: create_thread_existing)
  from one two cnt uniq short show ?thesis by blast
qed

theorem create_thread_idempotent_witness:
  "\<exists>tid st1.
      create_thread sample_store ''v1'' \<lparr>au_id = ''s1'', au_role = ''user'',
          au_email = ''s1@example.org'', au_full_name = ''S''\<rparr> = (Inr tid, st1)
    \<and> tid = str_oid 0 \<and> st1 = sample_store
    \<and> thread_count st1 ''s1'' ''v1'' = 1"
proof -
  let ?u = "\<lparr>au_id = ''s1'', au_role = ''user'', au_email = ''s1@example.org'',
             au_full_name = ''S''\<rparr>"
  have "sample_store = snd (create_thread empty_store ''v1'' ?u)"
    by (simp add: create_thread_def sample_store_def sample_thread_def empty_store_def
        find_one_def insert_messagethread_def)
  then have r: "reachable sample_store"
    using reachable.after_create_thread [OF reachable.start, of "''v1''" ?u] by simp
  have f: "find_one (\<lambda>t. t_student_id t = au_id ?u \<and> t_vendor_id t = ''v1'')
             (db_messagethread sample_store) = Some (0, sample_thread)"
    by (simp add: find_one_def sample_store_def sample_thread_def)
  from create_thread_idempotent [OF r, of "''v1''" ?u] f
  show ?thesis by simp
qed

section \<open>The listing query\<close>

lemma split_nonempty: "split sep s \<noteq> []"
  by (induction s) (auto split: list.splits)

lemma sort_key_const: "sort_key (\<lambda>x. c) xs = xs"
proof (induction xs)
  case Nil
  show ?case by simp
next
  case (Cons x xs)
  then show ?case by (cases xs) simp_all
qed

lemma apartment_created_at: "time_key (apartment_dump a) ''created_at'' = None"
  by (simp add: time_key_def apartment_dump_def)

lemma message_created_at: "time_key (message_dump m) ''created_at'' = None"
  by (simp add: time_key_def message_dump_def)

lemma sort_apartments_identity: "sort_cursor apartment_dump ''created_at'' direction cursor = cursor"
  by (simp add: sort_cursor_def apartment_created_at sort_key_const split_def)

lemma sort_messages_identity: "sort_cursor message_dump ''created_at'' direction cursor = cursor"
  by (simp add: sort_cursor_def message_created_at sort_key_const split_def)

lemma matches_append: "matches rx doc (xs @ ys) = (matches rx doc xs \<and> matches rx doc ys)"
  by (simp add: matches_def)

lemma matches_Nil: "matches rx doc []"
  by (simp add: matches_def)

lemma compiles_append:
  "query_compiles rx (xs @ ys) = (query_compiles rx xs \<and> query_compiles rx ys)"
  by (simp add: query_compiles_def)

lemma compiles_Nil: "query_compiles rx []"
  by (simp add: query_compiles_def)

lemma match_school:
  "matches rx (apartment_dump a) [(''school'', Literal s)] = (a_school a = s)"
  by (auto simp: matches_def match_key_def apartment_dump_def)

lemma ops_regex:
  "match_ops rx [(''$regex'', OStr t), (''$options'', OStr ''i'')] v
     = (case rx t ''i'' of None \<Rightarrow> False
        | Some search \<Rightarrow> (case v of Some (VStr s) \<Rightarrow> search s | _ \<Rightarrow> False))"
  by (simp add: match_ops_def match_regex_def match_gte_def match_lte_def match_all_def
      regex_options_def)

lemma match_text:
  "matches rx (apartment_dump a)
     [(''$or'', Clauses
         [(''title'', [(''$regex'', OStr t), (''$options'', OStr ''i'')]),
          (''location'', [(''$regex'', OStr t), (''$options'', OStr ''i'')]),
          (''description'', [(''$regex'', OStr t), (''$options'', OStr ''i'')])])]
     = text_hit rx t a"
  by (simp add: matches_def match_key_def ops_regex text_hit_def apartment_dump_def opt_str_def
      split: option.splits)


lemma match_price:
  "matches rx (apartment_dump a)
     [(''price_monthly'', Ops ((case lo of Some x \<Rightarrow> [(''$gte'', ONum x)] | None \<Rightarrow> [])
                              @ (case hi of Some y \<Rightarrow> [(''$lte'', ONum y)] | None \<Rightarrow> [])))]
     = ((case lo of Some x \<Rightarrow> x \<le> a_price_monthly a | None \<Rightarrow> True)
      \<and> (case hi of Some y \<Rightarrow> a_price_monthly a \<le> y | None \<Rightarrow> True))"
  by (simp add: matches_def match_key_def match_ops_def match_regex_def match_gte_def
      match_lte_def match_all_def apartment_dump_def split: option.splits)

lemma match_amenities:
  "matches rx (apartment_dump a) [(''amenities'', Ops [(''$all'', OList (split CHR '','' am))])]
     = (set (split CHR '','' am) \<subseteq> set (a_amenities a))"
  by (auto simp: matches_def match_key_def match_ops_def match_regex_def match_gte_def
      match_lte_def match_all_def apartment_dump_def split_nonempty list_all_iff)

lemma build_query_parts:
  "build_query school q lo hi am =
     (case school of Some s \<Rightarrow> if s \<noteq> [] then [(''school'', Literal s)] else [] | None \<Rightarrow> [])
   @ (case q of
        Some t \<Rightarrow>
          if t \<noteq> []
          then [(''$or'', Clauses
                  [(''title'', [(''$regex'', OStr t), (''$options'', OStr ''i'')]),
                   (''location'', [(''$regex'', OStr t), (''$options'', OStr ''i'')]),
                   (''description'', [(''$regex'', OStr t), (''$options'', OStr ''i'')])])]
          else []
      | None \<Rightarrow> [])
   @ (if lo = None \<and> hi = None then []
      else [(''price_monthly'',
             Ops ((case lo of Some x \<Rightarrow> [(''$gte'', ONum x)] | None \<Rightarrow> [])
                  @ (case hi of Some y \<Rightarrow> [(''$lte'', ONum y)] | None \<Rightarrow> [])))])
   @ (case am of
        Some s \<Rightarrow> if s \<noteq> [] then [(''amenities'', Ops [(''$all'', OList (split CHR '','' s))])] else []
      | None \<Rightarrow> [])"
  by (simp add: build_query_def Let_def split: option.splits)

lemma build_query_matches:
  "matches rx (apartment_dump a) (build_query school q lo hi am)
     = listing_filter rx school q lo hi am a"
proof -
  have school_part:
    "matches rx (apartment_dump a)
       (case school of Some s \<Rightarrow> if s \<noteq> [] then [(''school'', Literal s)] else [] | None \<Rightarrow> [])
     = (case school of Some s \<Rightarrow> s = [] \<or> a_school a = s | None \<Rightarrow> True)"
    by (simp add: match_school matches_Nil split: option.splits)
  have text_part:
    "matches rx (apartment_dump a)
       (case q of
          Some t \<Rightarrow>
            if t \<noteq> []
            then [(''$or'', Clauses
                    [(''title'', [(''$regex'', OStr t), (''$options'', OStr ''i'')]),
                     (''location'', [(''$regex'', OStr t), (''$options'', OStr ''i'')]),
                     (''description'', [(''$regex'', OStr t), (''$options'', OStr ''i'')])])]
            else []
        | None \<Rightarrow> [])
     = (case q of Some t \<Rightarrow> t = [] \<or> text_hit rx t a | None \<Rightarrow> True)"
    by (simp add: match_text matches_Nil split: option.splits)
  have price_part:
    "matches rx (apartment_dump a)
       (if lo = None \<and> hi = None then []
        else [(''price_monthly'',
               Ops ((case lo of Some x \<Rightarrow> [(''$gte'', ONum x)] | None \<Rightarrow> [])
                    @ (case hi of Some y \<Rightarrow> [(''$lte'', ONum y)] | None \<Rightarrow> [])))])
     = ((case lo of Some x \<Rightarrow> x \<le> a_price_monthly a | None \<Rightarrow> True)
      \<and> (case hi of Some y \<Rightarrow> a_price_monthly a \<le> y | None \<Rightarrow> True))"
    by (simp add: match_price matches_Nil)
  have amenities_part:
    "matches rx (apartment_dump a)
       (case am of
          Some s \<Rightarrow> if s \<noteq> [] then [(''amenities'', Ops [(''$all'', OList (split CHR '','' s))])] else []
        | None \<Rightarrow> [])
     = (case am of
          Some s \<Rightarrow> s = [] \<or> set (split CHR '','' s) \<subseteq> set (a_amenities a)
        | None \<Rightarrow> True)"
    by (simp add: match_amenities matches_Nil split: option.splits)
  show ?thesis
    unfolding build_query_parts matches_append listing_filter_def
    using school_part text_part price_part amenities_part by simp
qed

lemma build_query_compiles:
  "query_compiles rx (build_query school q lo hi am) = pattern_compiles rx q"
  unfolding build_query_parts compiles_append
  by (simp add: query_compiles_def ops_compile_def regex_options_def pattern_compiles_def
      split: option.splits)

text \<open>
  C5, as the code has it. The query \<open>list_apartments\<close> builds selects exactly the
  listings that satisfy \<open>listing_filter\<close>: the conjunction of one term for each filter
  that is present and not the empty string, with school by equality, the free text as
  a case-insensitive pattern found in any of title, location and description, the two
  prices as independent inclusive bounds, and the comma-separated amenities all
  contained in the listing's amenities. The listing fails when the free text is a
  pattern the store cannot compile.
\<close>

theorem list_apartments_filter:
  "matches rx (apartment_dump a) (build_query school q min_price max_price amenities)
     = listing_filter rx school q min_price max_price amenities a
   \<and> list_apartments rx st school q min_price max_price amenities
     = (if pattern_compiles rx q
        then Inr (list_with_id
                    (sort_cursor apartment_dump ''created_at'' (- 1)
                       (filter (\<lambda>(i, a). listing_filter rx school q min_price max_price amenities a)
                          (db_apartment st))))
        else Inl OperationFailure)"
  by (simp add: build_query_matches list_apartments_def find_many_def build_query_compiles)


theorem list_apartments_filter_witness:
  "list_apartments literal_dot_engine price_store None None (Some 800) None None
     = Inr [(str_oid 1, sample_apartment ''B'' 1000 [''wifi'', ''ac'']),
            (str_oid 2, sample_apartment ''C'' 1500 [''ac'', ''wifi'', ''pool''])]
   \<and> list_apartments literal_dot_engine price_store None None None None (Some ''wifi,ac'')
     = Inr [(str_oid 1, sample_apartment ''B'' 1000 [''wifi'', ''ac'']),
            (str_oid 2, sample_apartment ''C'' 1500 [''ac'', ''wifi'', ''pool''])]"
proof -
  have by_price:
    "list_apartments literal_dot_engine price_store None None (Some 800) None None
       = (if pattern_compiles literal_dot_engine None
          then Inr (list_with_id
                      (sort_cursor apartment_dump ''created_at'' (- 1)
                         (filter (\<lambda>(i, a). listing_filter literal_dot_engine None None (Some 800)
                                              None None a)
                            (db_apartment price_store))))
          else Inl OperationFailure)"
    using list_apartments_filter [of literal_dot_engine _ None None "Some 800" None None price_store]
    by (rule conjunct2)
  have by_amenities:
    "list_apartments literal_dot_engine price_store None None None None (Some ''wifi,ac'')
       = (if pattern_compiles literal_dot_engine None
          then Inr (list_with_id
                      (sort_cursor apartment_dump ''created_at'' (- 1)
                         (filter (\<lambda>(i, a). listing_filter literal_dot_engine None None None None
                                              (Some ''wifi,ac'') a)
                            (db_apartment price_store))))
          else Inl OperationFailure)"
    using list_apartments_filter [of literal_dot_engine _ None None None None "Some ''wifi,ac''"
        price_store]
    by (rule conjunct2)
  show ?thesis
    unfolding by_price by_amenities
    by (simp add: pattern_compiles_def listing_filter_def price_store_def sample_apartment_def
        sort_apartments_identity list_with_id_def)
qed

text \<open>
  The free text \<open>.\<close> is a pattern that matches any character. The listing titled
  \<open>Loft\<close> on \<open>Main Street\<close>, with no description, is returned for it, although no
  field of the listing contains a full stop.
\<close>

theorem free_text_is_a_pattern_counterexample:
  "list_apartments literal_dot_engine listing_store None (Some ''.'') None None None
     = Inr [(str_oid 0, sample_apartment ''Loft'' 500 [])]
   \<and> \<not> substring_ci ''.'' (a_title (sample_apartment ''Loft'' 500 []))
   \<and> \<not> substring_ci ''.'' (a_location (sample_apartment ''Loft'' 500 []))
   \<and> a_description (sample_apartment ''Loft'' 500 []) = None"
proof -
  have eng: "literal_dot_engine ''.'' ''i'' = Some (search_from True ''.'')"
    by (simp add: literal_dot_engine_def regex_meta_def)
  have hit: "text_hit literal_dot_engine ''.'' (sample_apartment ''Loft'' 500 [])"
    by (simp add: text_hit_def eng sample_apartment_def)
  have listed: "list_apartments literal_dot_engine listing_store None (Some ''.'') None None None
     = Inr [(str_oid 0, sample_apartment ''Loft'' 500 [])]"
    by (simp add: list_apartments_def find_many_def build_query_compiles build_query_matches
        pattern_compiles_def eng listing_filter_def hit listing_store_def
        sort_apartments_identity list_with_id_def)
  have no_sub: "\<not> substring_ci ''.'' ''Loft''" "\<not> substring_ci ''.'' ''Main Street''"
    by (simp_all add: lower_def upper_lower_def)
  show ?thesis
    using listed no_sub by (simp add: sample_apartment_def)
qed

section \<open>Result order\<close>

text \<open>
  C9, at an input where it fails. Two listings are created one after the other. No
  stored listing has a \<open>created_at\<close> field, so the sort of \<open>list_apartments\<close> compares
  equal keys and the listing comes back in insertion order: the older listing first.
\<close>

theorem list_apartments_oldest_first:
  "list_apartments rx two_listings None None None None None
     = Inr [(str_oid 0, sample_apartment ''First'' 500 []),
            (str_oid 1, sample_apartment ''Second'' 500 [])]"
  by (simp add: list_apartments_def find_many_def build_query_compiles build_query_matches
      pattern_compiles_def listing_filter_def sort_apartments_identity list_with_id_def
      two_listings_def create_apartment_def insert_apartment_def empty_store_def
      sample_listing_def sample_vendor_def sample_apartment_def)

end
